theory Spec2Isabelle
  imports Complex_Main
begin

section \<open>JavaScript values\<close>

text \<open>
  The classification service parses the remote model's reply with \<open>JSON.parse\<close> and
  reads it untyped (\<open>as any\<close>), so the model keeps the full shape of a parsed JSON
  value. A property read yields \<open>None\<close> where JavaScript yields \<open>undefined\<close>.
  Numbers are modelled as exact reals: IEEE rounding and the infinities are not
  modelled, \<open>NaN\<close> is. An object is given by its own properties, each name once.
\<close>

datatype json =
    JNull
  | JBool bool
  | JNum real
  | JStr string
  | JArr "json list"
  | JObj "(string \<times> json) list"

type_synonym jsval = "json option"

datatype jsnum = Num real | NaN

datatype exn =
    Error string
  | TypeError
  | SyntaxError
  | RemoteFailure
  | DOMException

text \<open>\<open>v.k\<close>: reading a property of \<open>null\<close> throws a TypeError; a parsed object
  yields the stored value or \<open>undefined\<close>; booleans, numbers, strings and arrays have
  none of the property names this program reads.\<close>

fun getProp :: "json \<Rightarrow> string \<Rightarrow> exn + jsval" where
  "getProp JNull k = Inl TypeError"
| "getProp (JObj kvs) k = Inr (map_of kvs k)"
| "getProp v k = Inr None"

text \<open>Truthiness, as used by \<open>if (v)\<close>, \<open>!v\<close> and \<open>v ? a : b\<close>.\<close>

fun truthy :: "jsval \<Rightarrow> bool" where
  "truthy None = False"
| "truthy (Some JNull) = False"
| "truthy (Some (JBool b)) = b"
| "truthy (Some (JNum r)) = (r \<noteq> 0)"
| "truthy (Some (JStr s)) = (s \<noteq> [])"
| "truthy (Some (JArr vs)) = True"
| "truthy (Some (JObj kvs)) = True"

text \<open>The built-ins the service relies on and that are not part of the repository:
  \<open>JSON.parse\<close> (\<open>None\<close> when it throws a SyntaxError) and the numeric coercion of
  strings, arrays and objects.\<close>

record platform =
  JSON_parse :: "string \<Rightarrow> json option"
  coerce :: "json \<Rightarrow> jsnum"

fun ToNumber :: "platform \<Rightarrow> jsval \<Rightarrow> jsnum" where
  "ToNumber P None = NaN"
| "ToNumber P (Some JNull) = Num 0"
| "ToNumber P (Some (JBool b)) = Num (if b then 1 else 0)"
| "ToNumber P (Some (JNum r)) = Num r"
| "ToNumber P (Some v) = coerce P v"

text \<open>\<open>x / 1000\<close>, \<open>a - b\<close> and \<open>a * b\<close> on numbers; \<open>NaN\<close> propagates.\<close>

fun div_1000 :: "jsnum \<Rightarrow> jsnum" where
  "div_1000 (Num a) = Num (a / 1000)"
| "div_1000 NaN = NaN"

fun num_sub :: "jsnum \<Rightarrow> jsnum \<Rightarrow> jsnum" where
  "num_sub (Num a) (Num b) = Num (a - b)"
| "num_sub a b = NaN"

fun num_mul :: "jsnum \<Rightarrow> jsnum \<Rightarrow> jsnum" where
  "num_mul (Num a) (Num b) = Num (a * b)"
| "num_mul a b = NaN"

section \<open>Shared interfaces (types.ts)\<close>

record BoundingBox =
  ymin :: jsnum
  xmin :: jsnum
  ymax :: jsnum
  xmax :: jsnum

text \<open>The fields are declared \<open>boolean\<close>, \<open>number | null\<close> and so on, but the service
  fills them from an untyped value, so at run time each holds whatever the reply held.\<close>

record DetectionResult =
  detected :: jsval
  number :: jsval
  boundingBox :: "BoundingBox option"
  confidence :: jsval
  explanation :: jsval

record HistoryEntry =
  timestamp :: nat
  result :: DetectionResult

record AppState =
  isProcessing :: bool
  currentResult :: "DetectionResult option"
  history :: "HistoryEntry list"

record Settings =
  showBoundingBox :: bool
  showConfidence :: bool
  showHistory :: bool
  autoProcess :: bool

section \<open>Classification client (services/geminiService.ts)\<close>

text \<open>What \<open>ai.models.generateContent\<close> does is outside the program: it rejects, or it
  resolves to a response whose \<open>text\<close> is a string or \<open>undefined\<close>.\<close>

datatype remote = Rejected | Responded "string option"

definition error_result :: DetectionResult where
  "error_result =
     \<lparr>detected = Some (JBool False), number = Some JNull, boundingBox = None,
      confidence = Some (JNum 0), explanation = Some (JStr ''Error processing image'')\<rparr>"

text \<open>Sequencing of steps that may throw: the first exception ends the block.\<close>

definition andThen :: "exn + 'a \<Rightarrow> ('a \<Rightarrow> exn + 'b) \<Rightarrow> exn + 'b" where
  "andThen m f = (case m of Inl e \<Rightarrow> Inl e | Inr a \<Rightarrow> f a)"

text \<open>The four coordinate reads of lines 79-84.\<close>

definition normalizeBox :: "platform \<Rightarrow> json \<Rightarrow> exn + BoundingBox" where
  "normalizeBox P b =
     andThen (getProp b ''ymin'') (\<lambda>y0.
     andThen (getProp b ''xmin'') (\<lambda>x0.
     andThen (getProp b ''ymax'') (\<lambda>y1.
     andThen (getProp b ''xmax'') (\<lambda>x1.
       Inr \<lparr>ymin = div_1000 (ToNumber P y0), xmin = div_1000 (ToNumber P x0),
            ymax = div_1000 (ToNumber P y1), xmax = div_1000 (ToNumber P x1)\<rparr>))))"

text \<open>Lines 77-85: the box stays \<open>null\<close> unless \<open>result.boundingBox\<close> is truthy.\<close>

definition normalizedBox_of :: "platform \<Rightarrow> jsval \<Rightarrow> exn + BoundingBox option" where
  "normalizedBox_of P bb =
     (if truthy bb
      then (case bb of
              None \<Rightarrow> Inr None
            | Some b \<Rightarrow> andThen (normalizeBox P b) (\<lambda>nb. Inr (Some nb)))
      else Inr None)"

text \<open>Lines 74-93: everything after the text has been obtained.\<close>

definition read_response :: "platform \<Rightarrow> string \<Rightarrow> exn + DetectionResult" where
  "read_response P t =
     (case JSON_parse P t of
        None \<Rightarrow> Inl SyntaxError
      | Some res \<Rightarrow>
          andThen (getProp res ''boundingBox'') (\<lambda>bb.
          andThen (normalizedBox_of P bb) (\<lambda>normalizedBox.
          andThen (getProp res ''detected'') (\<lambda>d.
          andThen (getProp res ''number'') (\<lambda>n.
          andThen (getProp res ''confidence'') (\<lambda>c.
          andThen (getProp res ''explanation'') (\<lambda>x.
            Inr \<lparr>detected = d, number = n, boundingBox = normalizedBox,
                 confidence = c, explanation = x\<rparr>)))))))"

text \<open>The body of the \<open>try\<close> block, lines 43-93.\<close>

definition detect_body :: "platform \<Rightarrow> remote \<Rightarrow> exn + DetectionResult" where
  "detect_body P r =
     (case r of
        Rejected \<Rightarrow> Inl RemoteFailure
      | Responded None \<Rightarrow> Inl (Error ''No response text from Gemini'')
      | Responded (Some t) \<Rightarrow>
          if t = [] then Inl (Error ''No response text from Gemini'') else read_response P t)"

text \<open>\<open>detectHandNumber\<close>: the \<open>try\<close> body, with every exception caught at line 95 and
  replaced by the fixed negative result. The value is the settled promise: \<open>Inr\<close> when
  it resolves, \<open>Inl\<close> when it rejects.\<close>

definition detectHandNumber :: "platform \<Rightarrow> remote \<Rightarrow> exn + DetectionResult" where
  "detectHandNumber P r =
     (case detect_body P r of
        Inl e \<Rightarrow> Inr error_result
      | Inr res \<Rightarrow> Inr res)"

section \<open>Frame sampler (components/HandDetector.tsx, lines 66-85)\<close>

record video =
  videoWidth :: nat
  videoHeight :: nat

text \<open>A quotient of two non-negative integers. \<open>None\<close> stands for the non-finite value
  (\<open>Infinity\<close> or \<open>NaN\<close>) that JavaScript produces when the divisor is zero; HOL's own
  \<open>x / 0 = 0\<close> must not leak into the model.\<close>

definition js_quot :: "nat \<Rightarrow> nat \<Rightarrow> real option" where
  "js_quot a b = (if b = 0 then None else Some (real a / real b))"

definition targetWidth :: nat where
  "targetWidth = 320"

definition scale :: "video \<Rightarrow> real option" where
  "scale v = js_quot targetWidth (videoWidth v)"

definition targetHeight :: "video \<Rightarrow> real option" where
  "targetHeight v = map_option (\<lambda>k. real (videoHeight v) * k) (scale v)"

text \<open>Assigning a number to \<open>canvas.width\<close> or \<open>canvas.height\<close>. The attribute is an
  \<open>unsigned long\<close>: a non-finite number becomes 0, any other number is cut to its integer
  part (towards zero) and reduced modulo \<open>2^32\<close>; the canvas then keeps the value if it is
  at most \<open>2^31 - 1\<close> and falls back to the attribute's default otherwise.\<close>

definition IntegerPart :: "real \<Rightarrow> int" where
  "IntegerPart r = (if r < 0 then - \<lfloor>- r\<rfloor> else \<lfloor>r\<rfloor>)"

definition ToUnsignedLong :: "real option \<Rightarrow> nat" where
  "ToUnsignedLong x = (case x of None \<Rightarrow> 0 | Some r \<Rightarrow> nat (IntegerPart r mod 4294967296))"

definition canvas_assign :: "nat \<Rightarrow> real option \<Rightarrow> nat" where
  "canvas_assign dflt x = (let n = ToUnsignedLong x in if n \<le> 2147483647 then n else dflt)"

text \<open>\<open>s.split(',')\<close> and the element at index 1 (\<open>undefined\<close> when there is none).\<close>

fun split_comma :: "string \<Rightarrow> string list" where
  "split_comma [] = [[]]"
| "split_comma (c # cs) =
     (if c = CHR '','' then [] # split_comma cs
      else (case split_comma cs of [] \<Rightarrow> [[c]] | p # ps \<Rightarrow> (c # p) # ps))"

definition base64_of :: "string \<Rightarrow> string option" where
  "base64_of url = (let ps = split_comma url in if 1 < length ps then Some (ps ! 1) else None)"

text \<open>What the scratch canvas does during one capture is the browser's business: it has
  no 2d context, or drawing or encoding throws, or \<open>toDataURL\<close> returns a data URL.\<close>

datatype canvas_outcome = NoContext | DrawThrows | DataURL string

record frame =
  frame_width :: nat
  frame_height :: nat
  base64Data :: "string option"

definition capture :: "video \<Rightarrow> canvas_outcome \<Rightarrow> exn + frame" where
  "capture v co =
     (let cw = canvas_assign 300 (Some (real targetWidth));
          ch = canvas_assign 150 (targetHeight v)
      in case co of
           NoContext \<Rightarrow> Inl (Error ''Could not get context'')
         | DrawThrows \<Rightarrow> Inl DOMException
         | DataURL url \<Rightarrow> Inr \<lparr>frame_width = cw, frame_height = ch, base64Data = base64_of url\<rparr>)"

section \<open>One cycle (components/HandDetector.tsx, processFrame)\<close>

definition initial_state :: AppState where
  "initial_state = \<lparr>isProcessing = False, currentResult = None, history = []\<rparr>"

text \<open>The three state updates the component issues through \<open>setState\<close>: the flag
  writes of lines 64 and 105, and the recording of a result in lines 90-101. Each is a
  function of the previous state.\<close>

datatype update = SetProcessing bool | Record nat DetectionResult

text \<open>The update of lines 90-101: \<open>now\<close> is the value of \<open>Date.now()\<close>.\<close>

definition recordResult :: "nat \<Rightarrow> DetectionResult \<Rightarrow> AppState \<Rightarrow> AppState" where
  "recordResult now r prev =
     (let newHistory =
            (if truthy (detected r)
             then take 10 (\<lparr>timestamp = now, result = r\<rparr> # history prev)
             else history prev)
      in prev\<lparr>isProcessing := False, currentResult := Some r, history := newHistory\<rparr>)"

fun apply_update :: "update \<Rightarrow> AppState \<Rightarrow> AppState" where
  "apply_update (SetProcessing b) prev = prev\<lparr>isProcessing := b\<rparr>"
| "apply_update (Record now r) prev = recordResult now r prev"

definition commit :: "update list \<Rightarrow> AppState \<Rightarrow> AppState" where
  "commit us s = foldl (\<lambda>prev u. apply_update u prev) s us"

datatype begin_outcome = Skipped | Caught exn | Requested frame

text \<open>\<open>processFrame\<close> up to the call of the classification client (lines 59-88): the
  updates it issues, in order, and how it leaves. The guards return before anything is
  written; an exception after the flag was set runs the handler of line 103, which
  clears the flag again. The guard is modelled as reading the state that the earlier
  updates produced.\<close>

definition begin_updates ::
  "video option \<Rightarrow> canvas_outcome \<Rightarrow> AppState \<Rightarrow> update list \<times> begin_outcome" where
  "begin_updates vo co s =
     (case vo of
        None \<Rightarrow> ([], Skipped)
      | Some v \<Rightarrow>
          if isProcessing s then ([], Skipped)
          else if videoWidth v = 0 \<or> videoHeight v = 0 then ([], Skipped)
          else
            (case capture v co of
               Inl e \<Rightarrow> ([SetProcessing True, SetProcessing False], Caught e)
             | Inr f \<Rightarrow> ([SetProcessing True], Requested f)))"

definition processFrame_begin ::
  "video option \<Rightarrow> canvas_outcome \<Rightarrow> AppState \<Rightarrow> AppState \<times> begin_outcome" where
  "processFrame_begin vo co s =
     (case begin_updates vo co s of (us, out) \<Rightarrow> (commit us s, out))"

text \<open>\<open>processFrame\<close> after the \<open>await\<close>: the settled promise is recorded, or, had it
  rejected, the handler clears the flag.\<close>

definition finish_updates :: "nat \<Rightarrow> exn + DetectionResult \<Rightarrow> update list" where
  "finish_updates now res =
     (case res of
        Inl e \<Rightarrow> [SetProcessing False]
      | Inr r \<Rightarrow> [Record now r])"

definition processFrame_finish ::
  "nat \<Rightarrow> exn + DetectionResult \<Rightarrow> AppState \<Rightarrow> AppState" where
  "processFrame_finish now res s = commit (finish_updates now res) s"

text \<open>Recording a sequence of results, each with its time stamp, and the history
  entries of those among them that are accepted.\<close>

definition record_all :: "(nat \<times> DetectionResult) list \<Rightarrow> AppState \<Rightarrow> AppState" where
  "record_all rs s = foldl (\<lambda>prev (now, r). recordResult now r prev) s rs"

definition accepted :: "(nat \<times> DetectionResult) list \<Rightarrow> HistoryEntry list" where
  "accepted rs =
     map (\<lambda>(now, r). \<lparr>timestamp = now, result = r\<rparr>)
         (filter (\<lambda>(now, r). truthy (detected r)) rs)"

section \<open>The loop as a transition system\<close>

text \<open>A cycle spans two events: a trigger (the manual button or the 10 ms timer of the
  auto-process effect, both of which call \<open>processFrame\<close>) and the resolution of the
  request it issued. \<open>outstanding\<close> lists the requests sent and not yet resolved.\<close>

datatype trigger = Manual | Scheduled

datatype event =
    Trigger trigger "video option" canvas_outcome
  | Resolve nat remote

record system =
  app :: AppState
  outstanding :: "frame list"

definition initial_system :: system where
  "initial_system = \<lparr>app = initial_state, outstanding = []\<rparr>"

fun step :: "platform \<Rightarrow> event \<Rightarrow> system \<Rightarrow> system" where
  "step P (Trigger k vo co) \<sigma> =
     (case processFrame_begin vo co (app \<sigma>) of
        (s', Requested f) \<Rightarrow> \<lparr>app = s', outstanding = outstanding \<sigma> @ [f]\<rparr>
      | (s', _) \<Rightarrow> \<lparr>app = s', outstanding = outstanding \<sigma>\<rparr>)"
| "step P (Resolve now r) \<sigma> =
     (case outstanding \<sigma> of
        [] \<Rightarrow> \<sigma>
      | f # fs \<Rightarrow> \<lparr>app = processFrame_finish now (detectHandNumber P r) (app \<sigma>),
                   outstanding = fs\<rparr>)"

definition run :: "platform \<Rightarrow> event list \<Rightarrow> system \<Rightarrow> system" where
  "run P es \<sigma> = foldl (\<lambda>\<tau> e. step P e \<tau>) \<sigma> es"

section \<open>Overlay renderer (components/HandDetector.tsx, lines 124-183)\<close>

record rect =
  rect_x :: jsnum
  rect_y :: jsnum
  rect_w :: jsnum
  rect_h :: jsnum

definition mirroredXMin :: "BoundingBox \<Rightarrow> jsnum" where
  "mirroredXMin b = num_sub (Num 1) (xmax b)"

definition mirroredXMax :: "BoundingBox \<Rightarrow> jsnum" where
  "mirroredXMax b = num_sub (Num 1) (xmin b)"

definition overlay_rect :: "BoundingBox \<Rightarrow> nat \<Rightarrow> nat \<Rightarrow> rect" where
  "overlay_rect b cw ch =
     \<lparr>rect_x = num_mul (mirroredXMin b) (Num (real cw)),
      rect_y = num_mul (ymin b) (Num (real ch)),
      rect_w = num_mul (num_sub (mirroredXMax b) (mirroredXMin b)) (Num (real cw)),
      rect_h = num_mul (num_sub (ymax b) (ymin b)) (Num (real ch))\<rparr>"

datatype overlay = Untouched | Cleared | Drawn rect

text \<open>The effect that draws the box. The surface takes the video's dimensions before
  the rectangle is computed; stroke styles and the number label are left out.\<close>

definition drawOverlay ::
  "bool \<Rightarrow> bool \<Rightarrow> video option \<Rightarrow> Settings \<Rightarrow> AppState \<Rightarrow> overlay" where
  "drawOverlay canvas ctx vo st s =
     (let box = Option.bind (currentResult s) boundingBox
      in if \<not> canvas \<or> vo = None \<or> box = None \<or> \<not> showBoundingBox st
         then (if canvas \<and> ctx then Cleared else Untouched)
         else if \<not> ctx then Untouched
         else (case (vo, box) of
                 (Some v, Some b) \<Rightarrow>
                   Drawn (overlay_rect b (canvas_assign 300 (Some (real (videoWidth v))))
                                         (canvas_assign 150 (Some (real (videoHeight v)))))
               | _ \<Rightarrow> Untouched))"

section \<open>Sample inputs\<close>

text \<open>Concrete replies of the remote model, used to run the definitions. The sample
  platform parses exactly these texts; \<open>reply_garbled\<close> is not JSON and makes
  \<open>JSON.parse\<close> throw.\<close>

definition reply_null :: string where
  "reply_null = ''null''"

definition reply_garbled :: string where
  "reply_garbled = ''Sorry, I cannot help''"

definition reply_boundary :: string where
  \<open>reply_boundary =
     ''{"detected":true,"number":5,"boundingBox":{"ymin":0,"xmin":0,"ymax":1000,"xmax":1000},"confidence":0.9}''\<close>

definition reply_no_box :: string where
  \<open>reply_no_box =
     ''{"detected":true,"number":2,"confidence":0.8,"explanation":"two fingers"}''\<close>

definition reply_negative :: string where
  \<open>reply_negative =
     ''{"detected":false,"number":3,"boundingBox":{"ymin":100,"xmin":200,"ymax":600,"xmax":700},"confidence":0.5}''\<close>

definition sample_platform :: platform where
  "sample_platform =
     \<lparr>JSON_parse = map_of
        [(reply_null, JNull),
         (reply_boundary,
          JObj [(''detected'', JBool True), (''number'', JNum 5),
                (''boundingBox'', JObj [(''ymin'', JNum 0), (''xmin'', JNum 0),
                                         (''ymax'', JNum 1000), (''xmax'', JNum 1000)]),
                (''confidence'', JNum 0.9)]),
         (reply_no_box,
          JObj [(''detected'', JBool True), (''number'', JNum 2),
                (''confidence'', JNum 0.8), (''explanation'', JStr ''two fingers'')]),
         (reply_negative,
          JObj [(''detected'', JBool False), (''number'', JNum 3),
                (''boundingBox'', JObj [(''ymin'', JNum 100), (''xmin'', JNum 200),
                                         (''ymax'', JNum 600), (''xmax'', JNum 700)]),
                (''confidence'', JNum 0.5)])],
      coerce = (\<lambda>v. NaN)\<rparr>"

definition negative_passthrough :: DetectionResult where
  "negative_passthrough =
     \<lparr>detected = Some (JBool False), number = Some (JNum 3),
      boundingBox = Some \<lparr>ymin = Num (1 / 10), xmin = Num (1 / 5),
                           ymax = Num (3 / 5), xmax = Num (7 / 10)\<rparr>,
      confidence = Some (JNum 0.5), explanation = None\<rparr>"

definition hit_no_box :: DetectionResult where
  "hit_no_box =
     \<lparr>detected = Some (JBool True), number = Some (JNum 2), boundingBox = None,
      confidence = Some (JNum 0.8), explanation = Some (JStr ''two fingers'')\<rparr>"

definition landscape :: video where
  "landscape = \<lparr>videoWidth = 640, videoHeight = 480\<rparr>"


definition not_ready :: video where
  "not_ready = \<lparr>videoWidth = 0, videoHeight = 0\<rparr>"

definition sample_url :: string where
  "sample_url = ''data:image/jpeg;base64,AAAA''"

definition sample_box :: BoundingBox where
  "sample_box = \<lparr>ymin = Num (1 / 10), xmin = Num (1 / 5), ymax = Num (3 / 5), xmax = Num (1 / 2)\<rparr>"

section \<open>Invariant of the loop\<close>

text \<open>At most one request is outstanding, the flag is set exactly while one is, and the
  history holds at most ten entries.\<close>

definition in_flight_inv :: "system \<Rightarrow> bool" where
  "in_flight_inv \<sigma> \<longleftrightarrow>
     length (outstanding \<sigma>) \<le> 1
     \<and> (isProcessing (app \<sigma>) \<longleftrightarrow> outstanding \<sigma> \<noteq> [])
     \<and> length (history (app \<sigma>)) \<le> 10"

section \<open>Properties of the classification client\<close>

lemmas sample_replies =
  sample_platform_def reply_null_def reply_garbled_def reply_boundary_def
  reply_no_box_def reply_negative_def

lemmas client_defs =
  detectHandNumber_def detect_body_def read_response_def andThen_def
  normalizedBox_of_def normalizeBox_def

text \<open>
  Claim C1. \<open>detectHandNumber\<close> never rejects: for every behaviour of the remote call and
  of the parser its promise resolves. When the remote call rejects, when the response has
  no text (\<open>undefined\<close> or the empty string), when \<open>JSON.parse\<close> throws, and when the
  parsed value is \<open>null\<close> (so that reading its \<open>boundingBox\<close> throws), the value is
  exactly the fixed negative result: not detected, number and box \<open>null\<close>, confidence 0,
  explanation "Error processing image".
\<close>

theorem detectHandNumber_absorbs_failures:
  "(\<exists>res. detectHandNumber P r = Inr res)
   \<and> detectHandNumber P Rejected = Inr error_result
   \<and> detectHandNumber P (Responded None) = Inr error_result
   \<and> detectHandNumber P (Responded (Some [])) = Inr error_result
   \<and> (JSON_parse P t = None \<longrightarrow> detectHandNumber P (Responded (Some t)) = Inr error_result)
   \<and> (JSON_parse P u = Some JNull \<longrightarrow> detectHandNumber P (Responded (Some u)) = Inr error_result)
   \<and> error_result =
       \<lparr>detected = Some (JBool False), number = Some JNull, boundingBox = None,
        confidence = Some (JNum 0), explanation = Some (JStr ''Error processing image'')\<rparr>"
  by (simp add: detectHandNumber_def detect_body_def read_response_def andThen_def
      error_result_def split: sum.split)

theorem detectHandNumber_absorbs_failures_witness:
  "JSON_parse sample_platform reply_garbled = None
   \<and> JSON_parse sample_platform reply_null = Some JNull
   \<and> detectHandNumber sample_platform (Responded (Some reply_garbled)) = Inr error_result
   \<and> detectHandNumber sample_platform (Responded (Some reply_null)) = Inr error_result"
proof -
  have g: "JSON_parse sample_platform reply_garbled = None"
    by (simp add: sample_replies)
  have n: "JSON_parse sample_platform reply_null = Some JNull"
    by (simp add: sample_replies)
  from g n detectHandNumber_absorbs_failures
         [of sample_platform Rejected reply_garbled reply_null]
  show ?thesis by simp
qed

text \<open>
  Claim C3. When the reply parses to an object whose \<open>boundingBox\<close> is an object with
  numeric \<open>ymin\<close>, \<open>xmin\<close>, \<open>ymax\<close> and \<open>xmax\<close>, the returned box holds each of the
  four numbers divided by 1000. At the ends of the scale, 0 becomes 0 and 1000 becomes 1.
\<close>

theorem boundingBox_rescaled:
  assumes "t \<noteq> []"
    and "JSON_parse P t = Some (JObj kvs)"
    and "map_of kvs ''boundingBox'' = Some (JObj box)"
    and "map_of box ''ymin'' = Some (JNum y0)"
    and "map_of box ''xmin'' = Some (JNum x0)"
    and "map_of box ''ymax'' = Some (JNum y1)"
    and "map_of box ''xmax'' = Some (JNum x1)"
  shows "(\<exists>res. detectHandNumber P (Responded (Some t)) = Inr res
           \<and> boundingBox res =
               Some \<lparr>ymin = Num (y0 / 1000), xmin = Num (x0 / 1000),
                     ymax = Num (y1 / 1000), xmax = Num (x1 / 1000)\<rparr>)
         \<and> div_1000 (Num 0) = Num 0 \<and> div_1000 (Num 1000) = Num 1"
  using assms by (simp add: client_defs)

theorem boundingBox_rescaled_witness:
  "\<exists>res. detectHandNumber sample_platform (Responded (Some reply_boundary)) = Inr res
      \<and> boundingBox res = Some \<lparr>ymin = Num 0, xmin = Num 0, ymax = Num 1, xmax = Num 1\<rparr>"
  using boundingBox_rescaled [of reply_boundary sample_platform _ _ 0 0 1000 1000]
  by (simp add: sample_replies)

text \<open>
  Claim C10. When the reply parses to an object whose \<open>boundingBox\<close> is absent or
  \<open>null\<close>, the returned result has \<open>boundingBox = null\<close> and its other four fields are
  the reply's own \<open>detected\<close>, \<open>number\<close>, \<open>confidence\<close> and \<open>explanation\<close>
  (\<open>undefined\<close> where the reply has none), whatever \<open>detected\<close> says.
\<close>

theorem missing_box_gives_null:
  assumes "t \<noteq> []"
    and "JSON_parse P t = Some (JObj kvs)"
    and "map_of kvs ''boundingBox'' = None \<or> map_of kvs ''boundingBox'' = Some JNull"
  shows "detectHandNumber P (Responded (Some t)) =
           Inr \<lparr>detected = map_of kvs ''detected'', number = map_of kvs ''number'',
                boundingBox = None,
                confidence = map_of kvs ''confidence'',
                explanation = map_of kvs ''explanation''\<rparr>"
  using assms by (auto simp add: client_defs)

theorem missing_box_gives_null_witness:
  "detectHandNumber sample_platform (Responded (Some reply_no_box)) =
     Inr \<lparr>detected = Some (JBool True), number = Some (JNum 2), boundingBox = None,
          confidence = Some (JNum 0.8), explanation = Some (JStr ''two fingers'')\<rparr>"
  using missing_box_gives_null [of reply_no_box sample_platform]
  by (simp add: sample_replies)


text \<open>
  Claim C7, as stated, fails: the client copies the reply's fields and enforces no relation
  between them. For the sample reply with \<open>detected = false\<close>, \<open>number = 3\<close>, a box and
  confidence 0.5, the returned result has \<open>detected = false\<close> and yet a number, a box and
  a confidence that is not 0.
\<close>

theorem negative_result_not_nulled:
  "detectHandNumber sample_platform (Responded (Some reply_negative)) = Inr negative_passthrough
   \<and> detected negative_passthrough = Some (JBool False)
   \<and> number negative_passthrough = Some (JNum 3)
   \<and> boundingBox negative_passthrough \<noteq> None
   \<and> confidence negative_passthrough = Some (JNum 0.5)"
  by (simp add: sample_replies client_defs negative_passthrough_def)

text \<open>
  Claim C7, amended. A returned result with \<open>detected = false\<close> is either the fixed
  negative result (number and box \<open>null\<close>, confidence 0), or it comes from a parsed reply
  whose own \<open>detected\<close> is \<open>false\<close>; then its number and confidence are the reply's, and
  its box is \<open>null\<close> exactly when the reply's \<open>boundingBox\<close> is absent or falsy.
\<close>

theorem negative_result_passthrough:
  assumes "detectHandNumber P r = Inr res"
    and "detected res = Some (JBool False)"
  shows "res = error_result
         \<or> (\<exists>t v bb. r = Responded (Some t) \<and> JSON_parse P t = Some v
               \<and> getProp v ''detected'' = Inr (Some (JBool False))
               \<and> getProp v ''number'' = Inr (number res)
               \<and> getProp v ''confidence'' = Inr (confidence res)
               \<and> getProp v ''boundingBox'' = Inr bb
               \<and> (boundingBox res = None \<longleftrightarrow> \<not> truthy bb))"
  using assms
  by (auto simp add: client_defs split: sum.splits remote.splits option.splits if_splits)

theorem negative_result_passthrough_witness:
  "detectHandNumber sample_platform (Responded (Some reply_negative)) = Inr negative_passthrough
   \<and> detected negative_passthrough = Some (JBool False)
   \<and> negative_passthrough \<noteq> error_result
   \<and> (\<exists>t v bb. Responded (Some reply_negative) = Responded (Some t)
          \<and> JSON_parse sample_platform t = Some v
          \<and> getProp v ''detected'' = Inr (Some (JBool False))
          \<and> getProp v ''number'' = Inr (number negative_passthrough)
          \<and> getProp v ''confidence'' = Inr (confidence negative_passthrough)
          \<and> getProp v ''boundingBox'' = Inr bb
          \<and> (boundingBox negative_passthrough = None \<longleftrightarrow> \<not> truthy bb))"
proof -
  have run: "detectHandNumber sample_platform (Responded (Some reply_negative))
               = Inr negative_passthrough"
    by (simp add: sample_replies client_defs negative_passthrough_def)
  have neg: "detected negative_passthrough = Some (JBool False)"
    by (simp add: negative_passthrough_def)
  have ne: "negative_passthrough \<noteq> error_result"
    by (simp add: negative_passthrough_def error_result_def)
  from negative_result_passthrough [OF run neg] ne run neg show ?thesis
    by blast
qed

section \<open>Properties of the frame sampler\<close>

lemma canvas_assign_nat:
  "n \<le> 2147483647 \<Longrightarrow> canvas_assign d (Some (real n)) = n"
  by (simp add: canvas_assign_def ToUnsignedLong_def IntegerPart_def Let_def nat_mod_distrib)


lemma targetHeight_ready:
  "videoWidth v \<noteq> 0 \<Longrightarrow>
     targetHeight v = Some (real (videoHeight v) * (320 / real (videoWidth v)))"
  by (simp add: targetHeight_def scale_def js_quot_def targetWidth_def)




section \<open>Properties of the cycle\<close>

lemma begin_updates_cases:
  "begin_updates vo co s = ([], Skipped)
   \<or> (\<not> isProcessing s
        \<and> (\<exists>e. begin_updates vo co s = ([SetProcessing True, SetProcessing False], Caught e)))
   \<or> (\<not> isProcessing s
        \<and> (\<exists>f. begin_updates vo co s = ([SetProcessing True], Requested f)))"
  by (simp add: begin_updates_def split: option.split sum.split)

lemma begin_cases:
  "processFrame_begin vo co s = (s, Skipped)
   \<or> (\<not> isProcessing s \<and> (\<exists>e. processFrame_begin vo co s = (s, Caught e)))
   \<or> (\<not> isProcessing s
        \<and> (\<exists>f. processFrame_begin vo co s = (s\<lparr>isProcessing := True\<rparr>, Requested f)))"
  using begin_updates_cases [of vo co s]
  by (auto simp add: processFrame_begin_def commit_def)


lemma begin_not_ready:
  "videoWidth v = 0 \<or> videoHeight v = 0 \<Longrightarrow> begin_updates (Some v) co s = ([], Skipped)"
  by (auto simp add: begin_updates_def)



text \<open>
  Claim C8. While the video reports width 0 or height 0, a call of \<open>processFrame\<close>
  returns at the guard: it issues no state update, so no field of the state changes, it
  throws nothing and it sends no request. Conversely, whenever a call gets past the
  guards, the width is not 0, so the quotient \<open>320 / videoWidth\<close> and the target height
  are finite numbers.
\<close>

theorem not_ready_is_noop:
  "(videoWidth v = 0 \<or> videoHeight v = 0 \<longrightarrow>
      begin_updates (Some v) co s = ([], Skipped)
      \<and> processFrame_begin (Some v) co s = (s, Skipped)
      \<and> step P (Trigger k (Some v) co) \<sigma> = \<sigma>)
   \<and> (begin_updates (Some w) co' s' \<noteq> ([], Skipped) \<longrightarrow>
        videoWidth w \<noteq> 0 \<and> videoHeight w \<noteq> 0
        \<and> scale w = Some (320 / real (videoWidth w))
        \<and> targetHeight w = Some (real (videoHeight w) * (320 / real (videoWidth w))))"
proof -
  have a: "begin_updates (Some v) co s = ([], Skipped)
           \<and> processFrame_begin (Some v) co s = (s, Skipped)
           \<and> step P (Trigger k (Some v) co) \<sigma> = \<sigma>"
    if "videoWidth v = 0 \<or> videoHeight v = 0"
    using that by (simp add: begin_not_ready processFrame_begin_def commit_def)
  have b: "videoWidth w \<noteq> 0 \<and> videoHeight w \<noteq> 0
           \<and> scale w = Some (320 / real (videoWidth w))
           \<and> targetHeight w = Some (real (videoHeight w) * (320 / real (videoWidth w)))"
    if "begin_updates (Some w) co' s' \<noteq> ([], Skipped)"
  proof -
    have "\<not> (videoWidth w = 0 \<or> videoHeight w = 0)"
    proof
      assume "videoWidth w = 0 \<or> videoHeight w = 0"
      then have "begin_updates (Some w) co' s' = ([], Skipped)"
        by (rule begin_not_ready)
      with that show False by simp
    qed
    then have "videoWidth w \<noteq> 0 \<and> videoHeight w \<noteq> 0" by simp
    then show ?thesis
      by (simp add: targetHeight_ready scale_def js_quot_def targetWidth_def)
  qed
  from a b show ?thesis by blast
qed

theorem not_ready_is_noop_witness:
  "processFrame_begin (Some not_ready) (DataURL sample_url) initial_state
     = (initial_state, Skipped)
   \<and> step sample_platform (Trigger Scheduled (Some not_ready) (DataURL sample_url))
        initial_system = initial_system
   \<and> begin_updates (Some landscape) (DataURL sample_url) initial_state \<noteq> ([], Skipped)
   \<and> scale landscape = Some (1 / 2)
   \<and> targetHeight landscape = Some 240"
proof -
  have z: "videoWidth not_ready = 0 \<or> videoHeight not_ready = 0"
    by (simp add: not_ready_def)
  have g: "begin_updates (Some landscape) (DataURL sample_url) initial_state \<noteq> ([], Skipped)"
    by (simp add: begin_updates_def landscape_def initial_state_def capture_def Let_def)
  from z g
    not_ready_is_noop
      [of not_ready "DataURL sample_url" initial_state sample_platform Scheduled
          initial_system landscape "DataURL sample_url" initial_state]
  show ?thesis by (simp add: landscape_def)
qed



section \<open>Properties of the loop\<close>

lemma run_snoc: "run P (es @ [e]) \<sigma> = step P e (run P es \<sigma>)"
  by (simp add: run_def)

lemma finish_resolved:
  "\<exists>res. detectHandNumber P r = Inr res
     \<and> finish_updates now (detectHandNumber P r) = [Record now res]
     \<and> processFrame_finish now (detectHandNumber P r) s = recordResult now res s"
  by (auto simp add: detectHandNumber_def processFrame_finish_def finish_updates_def commit_def
      split: sum.split)

lemma recordResult_fields:
  "isProcessing (recordResult now r s) = False"
  "currentResult (recordResult now r s) = Some r"
  "length (history s) \<le> 10 \<Longrightarrow> length (history (recordResult now r s)) \<le> 10"
  by (simp_all add: recordResult_def)

lemma step_trigger_inv:
  assumes "in_flight_inv \<sigma>"
  shows "in_flight_inv (step P (Trigger k vo co) \<sigma>)"
  using assms begin_cases [of vo co "app \<sigma>"]
  by (auto simp add: in_flight_inv_def)

lemma step_resolve_inv:
  assumes "in_flight_inv \<sigma>"
  shows "in_flight_inv (step P (Resolve now r) \<sigma>)"
proof (cases "outstanding \<sigma>")
  case Nil
  then show ?thesis using assms by simp
next
  case (Cons f fs)
  with assms have fs: "fs = []" by (simp add: in_flight_inv_def)
  obtain res where "processFrame_finish now (detectHandNumber P r) (app \<sigma>)
                      = recordResult now res (app \<sigma>)"
    using finish_resolved by blast
  then show ?thesis using assms Cons fs
    by (simp add: in_flight_inv_def recordResult_fields)
qed

lemma step_inv: "in_flight_inv \<sigma> \<Longrightarrow> in_flight_inv (step P e \<sigma>)"
  by (cases e) (simp_all only: step_trigger_inv step_resolve_inv)

lemma run_inv: "in_flight_inv (run P es initial_system)"
proof (induction es rule: rev_induct)
  case Nil
  show ?case by (simp add: run_def in_flight_inv_def initial_system_def initial_state_def)
next
  case (snoc e es)
  then show ?case by (simp add: run_snoc step_inv)
qed




section \<open>Properties of the result history\<close>

lemma record_all_snoc:
  "record_all (rs @ [(now, r)]) s = recordResult now r (record_all rs s)"
  by (simp add: record_all_def)

lemma history_record_all:
  "history (record_all rs initial_state) = take 10 (rev (accepted rs))"
proof (induction rs rule: rev_induct)
  case Nil
  show ?case by (simp add: record_all_def accepted_def initial_state_def)
next
  case (snoc x rs)
  obtain now r where x: "x = (now, r)" by (cases x)
  show ?case
  proof (cases "truthy (detected r)")
    case True
    have "history (record_all (rs @ [x]) initial_state)
            = take 10 (\<lparr>timestamp = now, result = r\<rparr> # take 10 (rev (accepted rs)))"
      using True snoc.IH by (simp add: x record_all_snoc recordResult_def)
    also have "\<dots> = take 10 (\<lparr>timestamp = now, result = r\<rparr> # rev (accepted rs))"
      by (simp add: numeral_eq_Suc)
    finally show ?thesis using True by (simp add: x accepted_def)
  next
    case False
    then show ?thesis
      using snoc.IH by (simp add: x record_all_snoc recordResult_def accepted_def)
  qed
qed

text \<open>
  Claim C4. Starting from the empty history, after recording any sequence of results the
  history is the first ten of the accepted entries in reverse order of recording (newest
  first), so it never holds more than ten; nor does it in any state the loop can reach.
  Recording a result with \<open>detected = false\<close> leaves the history as it was; recording
  one with \<open>detected = true\<close> puts it in front and keeps the first ten.
\<close>

theorem history_bounded_newest_first:
  "history (record_all rs initial_state) = take 10 (rev (accepted rs))
   \<and> length (history (record_all rs initial_state)) \<le> 10
   \<and> length (history (app (run P es initial_system))) \<le> 10
   \<and> (detected r = Some (JBool False) \<longrightarrow> history (recordResult now r s) = history s)
   \<and> (detected q = Some (JBool True) \<longrightarrow>
        history (recordResult now q s) = take 10 (\<lparr>timestamp = now, result = q\<rparr> # history s))"
  using run_inv [of P es]
  by (simp add: history_record_all recordResult_def in_flight_inv_def)

theorem history_bounded_newest_first_witness:
  "detected error_result = Some (JBool False)
   \<and> detected hit_no_box = Some (JBool True)
   \<and> history (recordResult 7 error_result (record_all [(5, hit_no_box)] initial_state))
       = [\<lparr>timestamp = 5, result = hit_no_box\<rparr>]
   \<and> history (recordResult 7 hit_no_box (record_all [(5, hit_no_box)] initial_state))
       = [\<lparr>timestamp = 7, result = hit_no_box\<rparr>, \<lparr>timestamp = 5, result = hit_no_box\<rparr>]"
proof -
  have f: "detected error_result = Some (JBool False)"
    by (simp add: error_result_def)
  have t: "detected hit_no_box = Some (JBool True)"
    by (simp add: hit_no_box_def)
  have h: "history (record_all [(5, hit_no_box)] initial_state)
             = [\<lparr>timestamp = 5, result = hit_no_box\<rparr>]"
    by (simp add: record_all_def recordResult_def initial_state_def t)
  from f t h
    history_bounded_newest_first
      [of "[(5, hit_no_box)]" sample_platform "[]" error_result 7
          "record_all [(5, hit_no_box)] initial_state" hit_no_box]
  show ?thesis by simp
qed

section \<open>Properties of the overlay renderer\<close>

text \<open>
  Claim C2. For a box with numeric coordinates (in particular with each coordinate in
  \<open>[0, 1]\<close>) the renderer takes \<open>mirroredXMin = 1 - xmax\<close> and
  \<open>mirroredXMax = 1 - xmin\<close>, leaves \<open>ymin\<close> and \<open>ymax\<close> as they are, and draws
  the rectangle with \<open>x = mirroredXMin * width\<close>, \<open>y = ymin * height\<close>,
  \<open>w = (mirroredXMax - mirroredXMin) * width\<close> and \<open>h = (ymax - ymin) * height\<close>,
  where width and height are those of the surface, which has taken the video's
  dimensions. For \<open>xmin = 0.2\<close> and \<open>xmax = 0.5\<close> the mirrored values are 0.5 and 0.8.
\<close>

theorem overlay_mirrors_box:
  "mirroredXMin \<lparr>ymin = Num y0, xmin = Num x0, ymax = Num y1, xmax = Num x1\<rparr> = Num (1 - x1)
   \<and> mirroredXMax \<lparr>ymin = Num y0, xmin = Num x0, ymax = Num y1, xmax = Num x1\<rparr> = Num (1 - x0)
   \<and> overlay_rect \<lparr>ymin = Num y0, xmin = Num x0, ymax = Num y1, xmax = Num x1\<rparr> cw ch
       = \<lparr>rect_x = Num ((1 - x1) * real cw), rect_y = Num (y0 * real ch),
          rect_w = Num (((1 - x0) - (1 - x1)) * real cw),
          rect_h = Num ((y1 - y0) * real ch)\<rparr>
   \<and> (showBoundingBox st \<and> currentResult s = Some res \<and> boundingBox res = Some b
        \<and> videoWidth v \<le> 2147483647 \<and> videoHeight v \<le> 2147483647 \<longrightarrow>
        drawOverlay True True (Some v) st s
          = Drawn (overlay_rect b (videoWidth v) (videoHeight v)))
   \<and> mirroredXMin \<lparr>ymin = a, xmin = Num 0.2, ymax = c, xmax = Num 0.5\<rparr> = Num 0.5
   \<and> mirroredXMax \<lparr>ymin = a, xmin = Num 0.2, ymax = c, xmax = Num 0.5\<rparr> = Num 0.8"
  by (simp add: mirroredXMin_def mirroredXMax_def overlay_rect_def drawOverlay_def
      canvas_assign_nat)

theorem overlay_mirrors_box_witness:
  "drawOverlay True True (Some landscape)
     \<lparr>showBoundingBox = True, showConfidence = True, showHistory = True, autoProcess = False\<rparr>
     \<lparr>isProcessing = False,
      currentResult = Some (hit_no_box\<lparr>boundingBox := Some sample_box\<rparr>),
      history = []\<rparr>
     = Drawn \<lparr>rect_x = Num 320, rect_y = Num 48, rect_w = Num 192, rect_h = Num 240\<rparr>"
  using overlay_mirrors_box
    [of "1 / 10" "1 / 5" "3 / 5" "1 / 2" 640 480
        "\<lparr>showBoundingBox = True, showConfidence = True, showHistory = True,
          autoProcess = False\<rparr>"
        "\<lparr>isProcessing = False,
          currentResult = Some (hit_no_box\<lparr>boundingBox := Some sample_box\<rparr>),
          history = []\<rparr>"
        "hit_no_box\<lparr>boundingBox := Some sample_box\<rparr>" sample_box landscape]
  by (simp add: landscape_def sample_box_def)

end
